theory Spec2Isabelle
  imports Main
begin

section \<open>Errors (errs.go, api/auth\_middleware.go)\<close>

text \<open>
  The sentinel errors of the toolkit are package-level variables; \<open>errors.Is\<close> tells them
  apart by identity, so each one is a constructor of its own.  The declarations of the six
  token errors occur in errs.go and again, with the same names and messages, in
  api/auth\_middleware.go; one constructor stands for each name.  \<open>Errorf\<close> is an error made
  on the spot by \<open>fmt.Errorf\<close> without a \<open>%w\<close> verb (it is equal to no sentinel);
  \<open>Wrapf before inner after\<close> is one made with a \<open>%w\<close> verb, which keeps the wrapped error
  reachable by \<open>Unwrap\<close>: \<open>before\<close> and \<open>after\<close> are the text of the format around the verb.
  \<open>NumError\<close> is \<open>*strconv.NumError\<close> of \<open>Atoi\<close>, with the input and the cause.
\<close>

datatype cause = ErrSyntax | ErrRange

datatype error =
    ErrBucketNotFound
  | ErrKeyAlreadyExists
  | ErrKeynotFound
  | ErrBadRequest
  | ErrInvalidUserPassword
  | ErrForbidden
  | ErrUnauthorized
  | ErrNoRow
  | ErrTokenContextMissing
  | ErrTokenInvalid
  | ErrTokenExpired
  | ErrTokenMalformed
  | ErrTokenNotActive
  | ErrUnexpectedSigningMethod
  | Errorf string
  | Wrapf string error string
  | NumError string cause
  | EOF

text \<open>
  The method \<open>Error()\<close>.  The text of a \<open>NumError\<close> quotes the input; the quoting is
  written without Go's escapes, which is its text for an input of plain characters.
\<close>

fun Error :: "error \<Rightarrow> string" where
  "Error ErrBucketNotFound = ''bucket not found''"
| "Error ErrKeyAlreadyExists = ''key already exists''"
| "Error ErrKeynotFound = ''key not found''"
| "Error ErrBadRequest = ''bad request''"
| "Error ErrInvalidUserPassword = ''invalid user or password''"
| "Error ErrForbidden = ''not authorized to access this resource''"
| "Error ErrUnauthorized = ''unauthorized''"
| "Error ErrNoRow = ''no row''"
| "Error ErrTokenContextMissing = ''token up for parsing was not passed through the context''"
| "Error ErrTokenInvalid = ''JWT Token was invalid''"
| "Error ErrTokenExpired = ''JWT Token is expired''"
| "Error ErrTokenMalformed = ''JWT Token is malformed''"
| "Error ErrTokenNotActive = ''token is not valid yet''"
| "Error ErrUnexpectedSigningMethod = ''unexpected signing method''"
| "Error (Errorf msg) = msg"
| "Error (Wrapf before inner after) = before @ Error inner @ after"
| "Error (NumError num ErrSyntax) =
     ''strconv.Atoi: parsing '' @ [CHR 0x22] @ num @ [CHR 0x22] @ '': invalid syntax''"
| "Error (NumError num ErrRange) =
     ''strconv.Atoi: parsing '' @ [CHR 0x22] @ num @ [CHR 0x22] @ '': value out of range''"
| "Error EOF = ''EOF''"


section \<open>The error-to-status translator (errs.go)\<close>

definition StatusUnauthorized :: nat where "StatusUnauthorized = 401"


section \<open>Endpoint composition (api/endpoint.go, middleware Chain)\<close>

text \<open>
  A middleware maps an endpoint to an endpoint of the same type; composition never looks
  inside the endpoint, so its type stays a parameter.
\<close>

type_synonym 'e Middleware = "'e \<Rightarrow> 'e"

text \<open>The loop \<open>for i := len(others) - 1; i >= 0; i-- { next = others[i](next) }\<close>.\<close>

function Chain_loop :: "'e Middleware list \<Rightarrow> int \<Rightarrow> 'e \<Rightarrow> 'e" where
  "Chain_loop others i next =
     (if i \<ge> 0 then Chain_loop others (i - 1) ((others ! nat i) next) else next)"
  by pat_completeness auto
termination
  by (relation "measure (\<lambda>(others, i, next). nat (i + 1))") auto

declare Chain_loop.simps [simp del]

definition Chain :: "'e Middleware \<Rightarrow> 'e Middleware list \<Rightarrow> 'e Middleware" where
  "Chain outer others = (\<lambda>next. outer (Chain_loop others (int (length others) - 1) next))"

text \<open>The method \<open>Endpoint.Chain\<close> runs the same loop on its receiver.\<close>

definition Endpoint_Chain :: "'e \<Rightarrow> 'e Middleware \<Rightarrow> 'e Middleware list \<Rightarrow> 'e" where
  "Endpoint_Chain ep outer others = outer (Chain_loop others (int (length others) - 1) ep)"

text \<open>The nested application \<open>M0(M1(...Mn(h)))\<close> of the composition law.\<close>

fun nested :: "'e Middleware list \<Rightarrow> 'e \<Rightarrow> 'e" where
  "nested [] h = h"
| "nested (m # ms) h = m (nested ms h)"

section \<open>Go primitives used by the code\<close>

text \<open>
  A run-time panic is not an \<open>error\<close> value: it unwinds the call.  Every function that can
  panic returns \<open>panic + 'a\<close>, with the panic on the left.
\<close>

datatype panic =
    IndexOutOfRange int nat
  | InterfaceConversion
  | IntnInvalidArgument

text \<open>The bounds-checked index expression \<open>xs[i]\<close>.\<close>

definition index :: "'a list \<Rightarrow> int \<Rightarrow> panic + 'a" where
  "index xs i =
     (if 0 \<le> i \<and> i < int (length xs) then Inr (xs ! nat i)
      else Inl (IndexOutOfRange i (length xs)))"

text \<open>
  \<open>strconv.Atoi\<close> on a 64-bit platform: an optional sign, then one or more decimal digits.
  The digits are read from the left; the scan stops with \<open>ErrSyntax\<close> at a byte that is no
  digit and with \<open>ErrRange\<close> as soon as the value leaves the unsigned 64-bit range; a value
  that does not fit \<open>int\<close> with its sign is \<open>ErrRange\<close> too.
\<close>

definition is_digit :: "char \<Rightarrow> bool" where
  "is_digit c = (48 \<le> (of_char c :: int) \<and> (of_char c :: int) \<le> 57)"

fun parse_digits :: "int \<Rightarrow> string \<Rightarrow> cause + int" where
  "parse_digits n [] = Inr n"
| "parse_digits n (c # cs) =
     (if \<not> is_digit c then Inl ErrSyntax
      else if n * 10 + ((of_char c :: int) - 48) \<ge> 2 ^ 64 then Inl ErrRange
      else parse_digits (n * 10 + ((of_char c :: int) - 48)) cs)"

definition Atoi :: "string \<Rightarrow> error + int" where
  "Atoi s =
     (if s = [] then Inl (NumError s ErrSyntax)
      else
        let neg = (hd s = CHR ''-'');
            ds = (if hd s = CHR ''-'' \<or> hd s = CHR ''+'' then tl s else s)
        in if ds = [] then Inl (NumError s ErrSyntax)
           else (case parse_digits 0 ds of
                   Inl c \<Rightarrow> Inl (NumError s c)
                 | Inr v \<Rightarrow>
                     if neg then (if v > 2 ^ 63 then Inl (NumError s ErrRange) else Inr (- v))
                     else (if v \<ge> 2 ^ 63 then Inl (NumError s ErrRange) else Inr v)))"

text \<open>\<open>strconv.Itoa\<close>: the decimal digits, after a minus sign for a negative number.\<close>

function digits_of :: "nat \<Rightarrow> string" where
  "digits_of n =
     (if n < 10 then [''0123456789'' ! n]
      else digits_of (n div 10) @ [''0123456789'' ! (n mod 10)])"
  by pat_completeness auto
termination
  by (relation "measure (\<lambda>n. n)") auto

declare digits_of.simps [simp del]

definition Itoa :: "int \<Rightarrow> string" where
  "Itoa i = (if i < 0 then CHR ''-'' # digits_of (nat (- i)) else digits_of (nat i))"

text \<open>
  \<open>(*rand.Rand).Intn(n)\<close> panics unless \<open>n > 0\<close>; otherwise it returns a number in
  \<open>[0, n)\<close>, a non-negative draw of the generator reduced modulo \<open>n\<close>.  The generator is
  seeded from the clock, so the draw \<open>rnd\<close> is an input of the model.
\<close>

definition Intn :: "nat \<Rightarrow> int \<Rightarrow> panic + int" where
  "Intn rnd n = (if n \<le> 0 then Inl IntnInvalidArgument else Inr (int rnd mod n))"

text \<open>
  \<open>strings.ToUpper\<close>, byte by byte: the ASCII letters \<open>a\<close> to \<open>z\<close> go to \<open>A\<close> to \<open>Z\<close>, every
  other byte stays.  Go maps the runes outside ASCII by Unicode's tables; no such rune has
  one of the letters B, E, A, R or the space as its upper case, so for the one comparison
  the code makes, with \<open>"BEARER "\<close>, the bytes outside ASCII need no more than to stay
  outside ASCII.
\<close>

definition ToUpper_char :: "char \<Rightarrow> char" where
  "ToUpper_char c =
     (case map_of (zip ''abcdefghijklmnopqrstuvwxyz'' ''ABCDEFGHIJKLMNOPQRSTUVWXYZ'') c of
        Some u \<Rightarrow> u
      | None \<Rightarrow> c)"

definition ToUpper :: "string \<Rightarrow> string" where
  "ToUpper s = map ToUpper_char s"

section \<open>Tokens and keys (package api)\<close>

text \<open>
  The token type is the jwt library's: the signing method, the header (a JSON object whose
  values are of any JSON type), the claims and the flag \<open>Valid\<close> that a successful parse
  sets.  The claims type is a parameter: the claims factory chooses it.
\<close>

datatype SigningMethod =
    SigningMethodHS256
  | SigningMethodHS384
  | SigningMethodHS512
  | SigningMethodRS256
  | SigningMethodES256
  | SigningMethodNone

fun Alg :: "SigningMethod \<Rightarrow> string" where
  "Alg SigningMethodHS256 = ''HS256''"
| "Alg SigningMethodHS384 = ''HS384''"
| "Alg SigningMethodHS512 = ''HS512''"
| "Alg SigningMethodRS256 = ''RS256''"
| "Alg SigningMethodES256 = ''ES256''"
| "Alg SigningMethodNone = ''none''"

datatype jval = JString string | JNumber int | JBool bool | JNull

record 'c Token =
  Method :: SigningMethod
  Header :: "string \<rightharpoonup> jval"
  Claims :: 'c
  Valid :: bool

definition jwtSigningMethod :: SigningMethod where
  "jwtSigningMethod = SigningMethodHS256"

text \<open>\<open>jwt.NewWithClaims\<close>: a fresh, not yet valid token with the headers \<open>typ\<close> and \<open>alg\<close>.\<close>

definition NewWithClaims :: "SigningMethod \<Rightarrow> 'c \<Rightarrow> 'c Token" where
  "NewWithClaims method claims =
     \<lparr> Method = method,
       Header = [''typ'' \<mapsto> JString ''JWT'', ''alg'' \<mapsto> JString (Alg method)],
       Claims = claims,
       Valid = False \<rparr>"

text \<open>
  \<open>getKey\<close>.  The type assertion \<open>token.Header["kid"].(string)\<close> has no \<open>ok\<close> result, so it
  panics when the header has no \<open>kid\<close> or one that is not a string; \<open>keys[n]\<close> is a checked
  index.  The result is \<open>[]byte(key)\<close>, the key's bytes.
\<close>

definition getKey :: "'c Token \<Rightarrow> string list \<Rightarrow> panic + (error + string)" where
  "getKey token keys =
     (case Header token ''kid'' of
        Some (JString kid) \<Rightarrow>
          (case Atoi kid of
             Inl err \<Rightarrow> Inr (Inl (Wrapf ''failed to parse the kid ID. '' err []))
           | Inr n \<Rightarrow>
               if n > int (length keys) - 1 then Inr (Inl (Errorf ''kid index is out of range''))
               else (case index keys n of
                       Inl p \<Rightarrow> Inl p
                     | Inr key \<Rightarrow> Inr (Inr key)))
      | _ \<Rightarrow> Inl InterfaceConversion)"

text \<open>
  \<open>CreateToken\<close>.  \<open>SignedString\<close> is the library's signing and encoding of the finished
  token with the chosen key; it is a parameter, and so is the random draw.
\<close>

definition CreateToken ::
  "('c Token \<Rightarrow> string \<Rightarrow> error + string) \<Rightarrow> nat \<Rightarrow> (unit \<Rightarrow> 'c) \<Rightarrow> string list
     \<Rightarrow> panic + (error + string)" where
  "CreateToken SignedString rnd claimFactory keys =
     (let claims = claimFactory ();
          token = NewWithClaims jwtSigningMethod claims
      in case Intn rnd (int (length keys) - 1) of
           Inl p \<Rightarrow> Inl p
         | Inr n0 \<Rightarrow>
             let n = (if n0 < 0 \<or> n0 > int (length keys) - 1 then 1 else n0);
                 kid = Itoa n
             in case index keys n of
                  Inl p \<Rightarrow> Inl p
                | Inr key \<Rightarrow>
                    Inr (SignedString (token\<lparr>Header := (Header token)(''kid'' \<mapsto> JString kid)\<rparr>) key))"

section \<open>Claims and the jwt library\<close>

text \<open>
  The claims variants a factory can return: the library's \<open>MapClaims\<close> and
  \<open>StandardClaims\<close>, and the toolkit's \<open>AuthClaims\<close>, which embeds the standard claims and
  adds \<open>Username\<close>, \<open>IsAdmin\<close> and \<open>Meta\<close>.  Times are seconds since the epoch.
\<close>

datatype StandardClaims =
  StandardClaims (Audience: "string list") (ExpiresAt: "int option") (ID: string)
    (IssuedAt: "int option") (Issuer: string) (NotBefore: "int option") (Subject: string)

datatype Claims =
    MapClaims "(string \<times> jval) list"
  | StdClaims StandardClaims
  | AuthClaims StandardClaims string bool "(string \<times> jval) list"

definition emptyStandardClaims :: StandardClaims where
  "emptyStandardClaims = StandardClaims [] None [] None [] None []"

definition MapClaimsFactory :: "unit \<Rightarrow> Claims" where
  "MapClaimsFactory u = MapClaims []"

definition StandardClaimsFactory :: "unit \<Rightarrow> Claims" where
  "StandardClaimsFactory u = AuthClaims emptyStandardClaims [] False []"

text \<open>
  The file api/auth\_middleware.go holds another version of the same package; where the two
  differ, the model's names of that file's version end in \<open>0\<close>.  Its standard factory
  returns the library's claims.
\<close>

definition StandardClaimsFactory0 :: "unit \<Rightarrow> Claims" where
  "StandardClaimsFactory0 u = StdClaims emptyStandardClaims"

text \<open>
  The jwt library (github.com/dgrijalva/jwt-go/v4) is a dependency, not code of the
  repository.  What it computes from the bytes of a token is a parameter of the model:
  \<open>ParseUnverified\<close> decodes the three segments into a token or fails, \<open>Verify\<close> checks the
  signature under a key, \<open>ClaimsValid\<close> applies the temporal and the optional claims checks.
  The errors are told apart by their dynamic type, as the type switch of the middleware does.
\<close>

datatype jwt_error =
    MalformedTokenError
  | TokenExpiredError
  | TokenNotValidYetError
  | UnverfiableTokenError error
  | InvalidSignatureError
  | InvalidClaimsError

datatype ParserOption = jwt_WithAudience string

record jwt =
  ParseUnverified :: "string \<Rightarrow> Claims \<Rightarrow> jwt_error + Claims Token"
  Verify :: "Claims Token \<Rightarrow> string \<Rightarrow> bool"
  ClaimsValid :: "Claims \<Rightarrow> ParserOption list \<Rightarrow> jwt_error option"

type_synonym Keyfunc = "Claims Token \<Rightarrow> panic + (error + string)"

text \<open>
  \<open>jwt.ParseWithClaims\<close>, in the order the library documents: decode without verifying; ask
  the key function for the key, an error of which comes back wrapped in an
  \<open>UnverfiableTokenError\<close>; verify the signature; validate the claims; mark the token valid.
\<close>

definition ParseWithClaims ::
  "jwt \<Rightarrow> string \<Rightarrow> Claims \<Rightarrow> Keyfunc \<Rightarrow> ParserOption list
     \<Rightarrow> panic + (jwt_error + Claims Token)" where
  "ParseWithClaims lib tokenString claims keyFunc opts =
     (case ParseUnverified lib tokenString claims of
        Inl e \<Rightarrow> Inr (Inl e)
      | Inr token \<Rightarrow>
          (case keyFunc token of
             Inl p \<Rightarrow> Inl p
           | Inr (Inl err) \<Rightarrow> Inr (Inl (UnverfiableTokenError err))
           | Inr (Inr key) \<Rightarrow>
               if \<not> Verify lib token key then Inr (Inl InvalidSignatureError)
               else (case ClaimsValid lib (Claims token) opts of
                       Some e \<Rightarrow> Inr (Inl e)
                     | None \<Rightarrow> Inr (Inr (token\<lparr>Valid := True\<rparr>)))))"

section \<open>The execution context (api/context.go)\<close>

text \<open>
  A context is an immutable chain of key/value entries: \<open>context.WithValue\<close> derives a new
  context with one more entry in front, \<open>Value\<close> finds the innermost entry of a key.
  \<open>ContextKeyJWTClaims\<close> is the claims key of api/auth\_middleware.go,
  \<open>ContextKeyURLParams\<close> the key of package http for the URL parameters.
\<close>

datatype ContextKey =
    ContextKeyJWTToken
  | ContextKeyAuthClaims
  | ContextKeyApikey
  | ContextKeyJWTClaims
  | ContextKeyURLParams

datatype any =
    AString string
  | AClaims Claims
  | AParams "string \<Rightarrow> string option"

type_synonym Context = "(ContextKey \<times> any) list"

definition WithValue :: "Context \<Rightarrow> ContextKey \<Rightarrow> any \<Rightarrow> Context" where
  "WithValue ctx k v = (k, v) # ctx"

definition Value :: "Context \<Rightarrow> ContextKey \<Rightarrow> any option" where
  "Value ctx k = map_of ctx k"

section \<open>The JWT endpoint middleware (package api)\<close>

text \<open>
  An endpoint takes a context and a request and returns \<open>(O, error)\<close>.  What it does
  besides is a change of the world \<open>'w\<close>, which is threaded through, so that an endpoint
  that was not invoked has left the world as it was.
\<close>

type_synonym ('i, 'o, 'w) Endpoint =
  "Context \<Rightarrow> 'i \<Rightarrow> 'w \<Rightarrow> panic + (('o \<times> error option) \<times> 'w)"

record jwtOption =
  ClaimFactory :: "(unit \<Rightarrow> Claims) option"
  JwtSigningMethod :: "SigningMethod option"
  ParserOptions :: "ParserOption list"

type_synonym JwtOption = "jwtOption \<Rightarrow> jwtOption"

definition DefaultJwtOptions :: jwtOption where
  "DefaultJwtOptions =
     \<lparr> ClaimFactory = Some StandardClaimsFactory, JwtSigningMethod = None, ParserOptions = [] \<rparr>"

definition WithAudience :: "string \<Rightarrow> JwtOption" where
  "WithAudience aud = (\<lambda>opt. opt\<lparr>ParserOptions := ParserOptions opt @ [jwt_WithAudience aud]\<rparr>)"

definition WithClaimsFactory :: "(unit \<Rightarrow> Claims) \<Rightarrow> JwtOption" where
  "WithClaimsFactory claimFactory = (\<lambda>opt. opt\<lparr>ClaimFactory := Some claimFactory\<rparr>)"

definition WithJwtSigningMethod :: "SigningMethod \<Rightarrow> JwtOption" where
  "WithJwtSigningMethod method = (\<lambda>opt. opt\<lparr>JwtSigningMethod := Some method\<rparr>)"

text \<open>The loop \<open>for _, o := range options { o(&opt) }\<close>.\<close>

definition apply_options :: "'a \<Rightarrow> ('a \<Rightarrow> 'a) list \<Rightarrow> 'a" where
  "apply_options opt options = foldl (\<lambda>acc f. f acc) opt options"

text \<open>
  \<open>WithJWTAuthEPMiddleware\<close>; \<open>zero\<close> is the zero value of the output type, the
  \<open>var out O\<close> of the source.
\<close>

definition WithJWTAuthEPMiddleware ::
  "jwt \<Rightarrow> 'o \<Rightarrow> ('i, 'o, 'w) Endpoint \<Rightarrow> Keyfunc \<Rightarrow> JwtOption list \<Rightarrow> ('i, 'o, 'w) Endpoint" where
  "WithJWTAuthEPMiddleware lib zero ep keyFn options = (\<lambda>ctx request w.
     let opt = apply_options
                 \<lparr> ClaimFactory = None, JwtSigningMethod = None, ParserOptions = [] \<rparr> options;
         claimFactory = (case ClaimFactory opt of None \<Rightarrow> StandardClaimsFactory | Some f \<Rightarrow> f);
         out = zero
     in case Value ctx ContextKeyJWTToken of
          Some (AString tokenString) \<Rightarrow>
            (case ParseWithClaims lib tokenString (claimFactory ())
                    (\<lambda>token. if Method token \<noteq> jwtSigningMethod
                              then Inr (Inl ErrUnexpectedSigningMethod)
                              else keyFn token)
                    (ParserOptions opt) of
               Inl p \<Rightarrow> Inl p
             | Inr (Inl err) \<Rightarrow>
                 (case err of
                    MalformedTokenError \<Rightarrow> Inr ((out, Some ErrTokenMalformed), w)
                  | TokenExpiredError \<Rightarrow> Inr ((out, Some ErrTokenExpired), w)
                  | TokenNotValidYetError \<Rightarrow> Inr ((out, Some ErrTokenNotActive), w)
                  | _ \<Rightarrow> Inr ((out, Some (Errorf ''not authorized to access this resource'')), w))
             | Inr (Inr token) \<Rightarrow>
                 if \<not> Valid token then Inr ((out, Some ErrTokenInvalid), w)
                 else ep (WithValue ctx ContextKeyAuthClaims (AClaims (Claims token))) request w)
        | _ \<Rightarrow> Inr ((out, Some ErrTokenContextMissing), w))"

definition JWTMiddleware ::
  "jwt \<Rightarrow> 'o \<Rightarrow> Keyfunc \<Rightarrow> JwtOption list \<Rightarrow> ('i, 'o, 'w) Endpoint Middleware" where
  "JWTMiddleware lib zero keyFn options = (\<lambda>next. WithJWTAuthEPMiddleware lib zero next keyFn options)"

definition ParseJwtError :: "jwt_error \<Rightarrow> string" where
  "ParseJwtError err =
     (case err of
        MalformedTokenError \<Rightarrow> Error ErrTokenMalformed
      | TokenExpiredError \<Rightarrow> Error ErrTokenExpired
      | TokenNotValidYetError \<Rightarrow> Error ErrTokenNotActive
      | _ \<Rightarrow> ''not authorized to access this resource'')"

definition DefaultKeys :: "string list" where
  "DefaultKeys = [''6ai1Vz6dHy9PbLCKUc8QtadUIuOUMuHQ'']"

definition DefaultJwtKeyGetterFunc :: Keyfunc where
  "DefaultJwtKeyGetterFunc token = getKey token DefaultKeys"

definition CreateJwtKeyGetterFunc :: "string list \<Rightarrow> Keyfunc" where
  "CreateJwtKeyGetterFunc keys = (\<lambda>token. getKey token keys)"

subsection \<open>The version of api/auth\_middleware.go\<close>

text \<open>
  Here the key function is an option, with the getter over the sixteen default keys as its
  default, and the claims go into the context under \<open>ContextKeyJWTClaims\<close>.
\<close>

record jwtOption0 =
  keyFunc0 :: "Keyfunc option"
  claimFactory0 :: "(unit \<Rightarrow> Claims) option"
  parserOptions0 :: "ParserOption list"

definition WithAudience0 :: "string \<Rightarrow> jwtOption0 \<Rightarrow> jwtOption0" where
  "WithAudience0 aud = (\<lambda>opt. opt\<lparr>parserOptions0 := parserOptions0 opt @ [jwt_WithAudience aud]\<rparr>)"

definition WithKeyGetter :: "Keyfunc \<Rightarrow> jwtOption0 \<Rightarrow> jwtOption0" where
  "WithKeyGetter keyGetter = (\<lambda>opt. opt\<lparr>keyFunc0 := Some keyGetter\<rparr>)"

definition DefaultKeys0 :: "string list" where
  "DefaultKeys0 =
     [''6ai1Vz6dHy9PbLCKUc8QtadUIuOUMuHQ'', ''rUpWCnIwgvHfEpKJpXknmw5ozfBrpzbz'',
      ''bczvJVnrzXk5WHzSTm5GNMQo5nBfHnyK'', ''PQsc8LdzrV6Mn7Kq71E31N4vRhNpj30q'',
      ''W9X0Y1Z2A3B4C5D6E7F8G9H0I1J2K3L4'', ''M5N6O7P8Q9R0S1T2U3V4W5X6Y7Z8A9B0'',
      ''C1D2E3F4G5H6I7J8K9L0M1N2O3P4Q5R6'', ''S7T8U9V0W1X2Y3Z4A5B6C7D8E9F0G1H2'',
      ''I3J4K5L6M7N8O9P0Q1R2S3T4U5V6W7X8'', ''Y9Z0A1B2C3D4E5F6G7H8I9J0K1L2M3N4'',
      ''Z0A1B2C3D4E5F6G7H8I9J0K1L2M3N4O5'', ''P6Q7R8S9T0U1V2W3X4Y5Z6A7B8C9D0E1'',
      ''F2G3H4I5J6K7L8M9N0O1P2Q3R4S5T6U7'', ''V8W9X0Y1Z2A3B4C5D6E7F8G9H0I1J2K3'',
      ''L4M5N6O7P8Q9R0S1T2U3V4W5X6Y7Z8A9'', ''B0C1D2E3F4G5H6I7J8K9L0M1N2O3P4Q5'']"

definition DefaultJwtKeyGetterFunc0 :: Keyfunc where
  "DefaultJwtKeyGetterFunc0 token = getKey token DefaultKeys0"

definition WithJWTAuthEPMiddleware0 ::
  "jwt \<Rightarrow> 'o \<Rightarrow> ('i, 'o, 'w) Endpoint \<Rightarrow> (jwtOption0 \<Rightarrow> jwtOption0) list \<Rightarrow> ('i, 'o, 'w) Endpoint" where
  "WithJWTAuthEPMiddleware0 lib zero ep options = (\<lambda>ctx request w.
     let opt = apply_options
                 \<lparr> keyFunc0 = None, claimFactory0 = None, parserOptions0 = [] \<rparr> options;
         claimFactory = (case claimFactory0 opt of None \<Rightarrow> StandardClaimsFactory0 | Some f \<Rightarrow> f);
         keyFunc = (case keyFunc0 opt of None \<Rightarrow> DefaultJwtKeyGetterFunc0 | Some f \<Rightarrow> f);
         out = zero
     in case Value ctx ContextKeyJWTToken of
          Some (AString tokenString) \<Rightarrow>
            (case ParseWithClaims lib tokenString (claimFactory ())
                    (\<lambda>token. if Method token \<noteq> jwtSigningMethod
                              then Inr (Inl ErrUnexpectedSigningMethod)
                              else keyFunc token)
                    (parserOptions0 opt) of
               Inl p \<Rightarrow> Inl p
             | Inr (Inl err) \<Rightarrow>
                 (case err of
                    MalformedTokenError \<Rightarrow> Inr ((out, Some ErrTokenMalformed), w)
                  | TokenExpiredError \<Rightarrow> Inr ((out, Some ErrTokenExpired), w)
                  | TokenNotValidYetError \<Rightarrow> Inr ((out, Some ErrTokenNotActive), w)
                  | _ \<Rightarrow> Inr ((out, Some (Errorf ''not authorized to access this resource'')), w))
             | Inr (Inr token) \<Rightarrow>
                 if \<not> Valid token then Inr ((out, Some ErrTokenInvalid), w)
                 else ep (WithValue ctx ContextKeyJWTClaims (AClaims (Claims token))) request w)
        | _ \<Rightarrow> Inr ((out, Some ErrTokenContextMissing), w))"

section \<open>The HTTP middlewares (package http)\<close>

text \<open>
  Of a request the middlewares read the header and the context.  The header maps a
  canonical field name to its values, and \<open>Get\<close> returns the first value or the empty
  string; the two names the code asks for are canonical as written.  \<open>WithContext\<close>
  returns a copy of the request with the context replaced and leaves its receiver alone.
  The fields are \<open>ReqHeader\<close> and \<open>ReqContext\<close>, the name \<open>Header\<close> being the token's.
\<close>

record Request =
  ReqHeader :: "string \<Rightarrow> string list"
  ReqContext :: Context

definition Header_Get :: "(string \<Rightarrow> string list) \<Rightarrow> string \<Rightarrow> string" where
  "Header_Get h key = (case h key of [] \<Rightarrow> [] | v # vs \<Rightarrow> v)"

definition WithContext :: "Request \<Rightarrow> Context \<Rightarrow> Request" where
  "WithContext r ctx = r\<lparr>ReqContext := ctx\<rparr>"

text \<open>
  Of the response writer the model keeps the status code (0 while none is written) and the
  body.  \<open>http.Error\<close> writes the code, if none was written before, and the message with a
  line feed.
\<close>

record ResponseWriter =
  StatusCode :: nat
  Body :: string

definition http_Error :: "ResponseWriter \<Rightarrow> string \<Rightarrow> nat \<Rightarrow> ResponseWriter" where
  "http_Error w msg code =
     w\<lparr> StatusCode := (if StatusCode w = 0 then code else StatusCode w),
        Body := Body w @ msg @ [CHR 0x0A] \<rparr>"

type_synonym Handler = "ResponseWriter \<Rightarrow> Request \<Rightarrow> panic + ResponseWriter"

definition TokenFromHeader :: "Request \<Rightarrow> string" where
  "TokenFromHeader r =
     (let bearer = Header_Get (ReqHeader r) ''Authorization''
      in if length bearer > 7 \<and> ToUpper (take 7 bearer) = ''BEARER '' then drop 7 bearer
         else [])"

definition ApikeyFromHeader :: "Request \<Rightarrow> string" where
  "ApikeyFromHeader r = Header_Get (ReqHeader r) ''X-Api-Key''"

definition MakeHttpJwtMiddleware :: "jwt \<Rightarrow> Keyfunc \<Rightarrow> JwtOption list \<Rightarrow> Handler \<Rightarrow> Handler" where
  "MakeHttpJwtMiddleware lib keyFn options = (\<lambda>next w r.
     let tokenString = TokenFromHeader r
     in if tokenString = [] then Inr (http_Error w ''Not Authorized'' StatusUnauthorized)
        else
          let opt = apply_options DefaultJwtOptions options;
              claimFactory = (case ClaimFactory opt of None \<Rightarrow> StandardClaimsFactory | Some f \<Rightarrow> f);
              jwtSigningMethod = (case JwtSigningMethod opt of
                                    None \<Rightarrow> SigningMethodHS256 | Some m \<Rightarrow> m)
          in case ParseWithClaims lib tokenString (claimFactory ())
                    (\<lambda>token. if Method token \<noteq> jwtSigningMethod
                              then Inr (Inl ErrUnexpectedSigningMethod)
                              else keyFn token)
                    (ParserOptions opt) of
               Inl p \<Rightarrow> Inl p
             | Inr (Inl err) \<Rightarrow> Inr (http_Error w (ParseJwtError err) StatusUnauthorized)
             | Inr (Inr token) \<Rightarrow>
                 if \<not> Valid token then Inr (http_Error w (Error ErrTokenInvalid) StatusUnauthorized)
                 else
                   let ctx = WithValue (ReqContext r) ContextKeyJWTToken (AString tokenString);
                       ctx = WithValue ctx ContextKeyAuthClaims (AClaims (Claims token));
                       r = WithContext r ctx
                   in next w r)"

text \<open>
  \<open>MakeHttpApikeyMiddleware\<close>.  The validation function returns claims of any type or nil
  (\<open>None\<close>).  The two statements \<open>r.WithContext(...)\<close> are calls whose results the source
  does not use; they are the bindings \<open>r1\<close> and \<open>r2\<close>.
\<close>

definition MakeHttpApikeyMiddleware :: "(string \<Rightarrow> any option) \<Rightarrow> Handler \<Rightarrow> Handler" where
  "MakeHttpApikeyMiddleware validateFn = (\<lambda>next w r.
     let apikey = ApikeyFromHeader r
     in if apikey = [] then Inr (http_Error w ''Apikey required. Authorized'' StatusUnauthorized)
        else (case validateFn apikey of
                None \<Rightarrow>
                  Inr (http_Error w ''Apikey Validation failed. Not Authorized'' StatusUnauthorized)
              | Some claims \<Rightarrow>
                  let r1 = WithContext r (WithValue (ReqContext r) ContextKeyAuthClaims claims);
                      r2 = WithContext r (WithValue (ReqContext r) ContextKeyApikey (AString apikey))
                  in next w r))"

definition MakeHttpJwtAndApikeyMiddleware ::
  "jwt \<Rightarrow> Keyfunc \<Rightarrow> (string \<Rightarrow> any option) \<Rightarrow> JwtOption list \<Rightarrow> Handler \<Rightarrow> Handler" where
  "MakeHttpJwtAndApikeyMiddleware lib jwtKeyFn apikeyValidateFn options = (\<lambda>next w r.
     let tokenString = TokenFromHeader r;
         apikey = ApikeyFromHeader r
     in if tokenString = [] \<and> apikey = []
        then Inr (http_Error w ''Not Authorized'' StatusUnauthorized)
        else
          let opt = apply_options DefaultJwtOptions options;
              claimFactory = (case ClaimFactory opt of None \<Rightarrow> StandardClaimsFactory | Some f \<Rightarrow> f);
              jwtSigningMethod = (case JwtSigningMethod opt of
                                    None \<Rightarrow> SigningMethodHS256 | Some m \<Rightarrow> m)
          in if tokenString \<noteq> [] then
               (case ParseWithClaims lib tokenString (claimFactory ())
                       (\<lambda>token. if Method token \<noteq> jwtSigningMethod
                                 then Inr (Inl ErrUnexpectedSigningMethod)
                                 else jwtKeyFn token)
                       (ParserOptions opt) of
                  Inl p \<Rightarrow> Inl p
                | Inr (Inl err) \<Rightarrow> Inr (http_Error w (ParseJwtError err) StatusUnauthorized)
                | Inr (Inr token) \<Rightarrow>
                    if \<not> Valid token
                    then Inr (http_Error w (Error ErrTokenInvalid) StatusUnauthorized)
                    else
                      let r1 = WithContext r
                                 (WithValue (ReqContext r) ContextKeyAuthClaims (AClaims (Claims token)));
                          r2 = WithContext r
                                 (WithValue (ReqContext r) ContextKeyJWTToken (AString tokenString))
                      in next w r)
             else (case apikeyValidateFn apikey of
                     None \<Rightarrow>
                       Inr (http_Error w ''Apikey Validation failed. Not Authorized''
                              StatusUnauthorized)
                   | Some claims \<Rightarrow>
                       let r1 = WithContext r (WithValue (ReqContext r) ContextKeyAuthClaims claims);
                           r2 = WithContext r
                                  (WithValue (ReqContext r) ContextKeyApikey (AString apikey))
                       in next w r))"

section \<open>The multipart decoders (package http)\<close>

text \<open>
  A multipart body is what \<open>reader.NextPart()\<close> yields call after call: a part, or an error
  that is not \<open>io.EOF\<close> (a malformed body); the end of the list is \<open>io.EOF\<close>.  Of a part
  the decoders use the form name, the file name (empty for a plain value), the content type
  (\<open>header.Get("content-type")\<close>) and the content: the bytes \<open>Data\<close> that reading the part
  delivers and then the end of the part, or a read error \<open>ReadErr\<close> in its place.
\<close>

record Part =
  FormName :: string
  FileName :: string
  ContentType :: string
  Data :: string
  ReadErr :: "error option"

datatype body_item = NextPart Part | NextPartError error

text \<open>
  \<open>url.Values\<close> maps a name to its values, none for a name it does not have;
  \<open>formData[name] = append(formData[name], v)\<close> changes the entry of one name.
\<close>

type_synonym Values = "string \<Rightarrow> string list"


text \<open>
  \<open>io.CopyN(&b, part, n)\<close> returns what it wrote to the buffer, the count and an error:
  \<open>n\<close> bytes and no error if the part has that many (what follows them is not read), else
  all of the part with \<open>io.EOF\<close> or with the part's read error; nothing for \<open>n \<le> 0\<close>.
\<close>

definition CopyN :: "Part \<Rightarrow> int \<Rightarrow> string \<times> int \<times> error option" where
  "CopyN part n =
     (if n \<le> 0 then ([], 0, None)
      else if n \<le> int (length (Data part)) then (take (nat n) (Data part), n, None)
      else (Data part, int (length (Data part)),
            Some (case ReadErr part of None \<Rightarrow> EOF | Some e \<Rightarrow> e)))"

definition maxDataMemory :: int where
  "maxDataMemory = 5 * 1024 * 1024"





text \<open>
  The URL parameters of the context are added to the query: \<open>query.Add(k, v)\<close> for every
  entry of the map, which has one value for a key.
\<close>

definition add_params :: "Values \<Rightarrow> any option \<Rightarrow> Values" where
  "add_params query params =
     (case params of
        Some (AParams m) \<Rightarrow> (\<lambda>k. query k @ (case m k of None \<Rightarrow> [] | Some v \<Rightarrow> [v]))
      | _ \<Rightarrow> query)"

text \<open>
  A request with a body: \<open>MultipartReader\<close> is the result of \<open>r.MultipartReader()\<close>, an
  error for a request that is not multipart, and \<open>URLQuery\<close> that of \<open>r.URL.Query()\<close>.
\<close>

record MultipartRequest = Request +
  MultipartReader :: "error + body_item list"
  URLQuery :: Values


subsection \<open>Single-file mode: CommonFileUploadStreamDecoder\<close>

text \<open>
  The target has the method \<open>AddFileStream\<close>.  The file is handed over as the read end of
  a pipe that a goroutine fills from the part; here it is what a reader of the pipe gets up
  to its end, the content of the part (this version of the decoder prints a read error of
  the part and closes the pipe without it).  The loop ends with \<open>break\<close> at the first part
  that has a file name.  The two binding functions are those of the decoder above; as
  fields of this target they are \<open>BindFormData1\<close> and \<open>BindURLQuery1\<close>.
\<close>

record 'obj stream_target =
  AddFileStream :: "'obj \<Rightarrow> string \<Rightarrow> string \<Rightarrow> string \<Rightarrow> 'obj"
  BindFormData1 :: "'obj \<Rightarrow> Values \<Rightarrow> error + 'obj"
  BindURLQuery1 :: "'obj \<Rightarrow> Values \<Rightarrow> error + 'obj"

fun single_file_loop ::
  "'obj stream_target \<Rightarrow> body_item list \<Rightarrow> 'obj \<Rightarrow> Values \<Rightarrow> error + ('obj \<times> Values)" where
  "single_file_loop ops [] reqObj formData = Inr (reqObj, formData)"
| "single_file_loop ops (NextPartError err # rest) reqObj formData = Inl err"
| "single_file_loop ops (NextPart part # rest) reqObj formData =
     (if FileName part = [] then
        (case CopyN part (maxDataMemory + 1) of
           (b, n, err) \<Rightarrow>
             (case (if err = Some EOF then None else err) of
                Some e \<Rightarrow> Inl e
              | None \<Rightarrow>
                  if maxDataMemory - n < 0 then Inl (Errorf ''multipart: message to large'')
                  else single_file_loop ops rest reqObj
                         (\<lambda>k. if k = FormName part then formData k @ [b] else formData k)))
      else Inr (AddFileStream ops reqObj (FileName part) (Data part) (ContentType part), formData))"

definition CommonFileUploadStreamDecoder ::
  "'obj stream_target \<Rightarrow> 'obj \<Rightarrow> Context \<Rightarrow> MultipartRequest \<Rightarrow> error + 'obj" where
  "CommonFileUploadStreamDecoder ops new = (\<lambda>ctx r.
     case MultipartReader r of
       Inl err \<Rightarrow> Inl err
     | Inr reader \<Rightarrow>
         (case single_file_loop ops reader new (\<lambda>k. []) of
            Inl err \<Rightarrow> Inl err
          | Inr (reqObj, formData) \<Rightarrow>
              (case BindFormData1 ops reqObj formData of
                 Inl err \<Rightarrow> Inl err
               | Inr reqObj1 \<Rightarrow>
                   BindURLQuery1 ops reqObj1
                     (add_params (URLQuery r) (Value ctx ContextKeyURLParams)))))"

subsection \<open>What a body holds, for the statements about the decoders\<close>



fun form_values :: "body_item list \<Rightarrow> string \<Rightarrow> string list" where
  "form_values [] name = []"
| "form_values (NextPart p # rest) name =
     (if FileName p = [] \<and> FormName p = name
      then Data p # form_values rest name else form_values rest name)"
| "form_values (NextPartError e # rest) name = form_values rest name"

fun no_file :: "body_item \<Rightarrow> bool" where
  "no_file (NextPart p) = (FileName p = [])"
| "no_file (NextPartError e) = True"

text \<open>
  The wording of the specification for the scheme test of \<open>TokenFromHeader\<close>, "the first
  seven characters case-insensitively equal BEARER": equality after folding the ASCII upper
  case letters to lower case.  It is stated apart from the code's \<open>ToUpper\<close> and compared
  with it below.
\<close>

definition ToLower_char :: "char \<Rightarrow> char" where
  "ToLower_char c =
     (case map_of (zip ''ABCDEFGHIJKLMNOPQRSTUVWXYZ'' ''abcdefghijklmnopqrstuvwxyz'') c of
        Some l \<Rightarrow> l
      | None \<Rightarrow> c)"

definition case_insensitive_equal :: "string \<Rightarrow> string \<Rightarrow> bool" where
  "case_insensitive_equal s t = (map ToLower_char s = map ToLower_char t)"

section \<open>Properties\<close>

lemma nested_snoc: "nested (ms @ [m]) h = nested ms (m h)"
  by (induction ms) simp_all

lemma Chain_loop_take:
  "k \<le> length others \<Longrightarrow> Chain_loop others (int k - 1) next = nested (take k others) next"
proof (induction k arbitrary: "next")
  case 0
  show ?case by (simp add: Chain_loop.simps)
next
  case (Suc k)
  from Suc.prems have k: "k < length others" by simp
  have "Chain_loop others (int (Suc k) - 1) next
          = Chain_loop others (int k - 1) ((others ! k) next)"
    by (subst Chain_loop.simps) simp
  also have "\<dots> = nested (take k others) ((others ! k) next)"
    using Suc.IH k by simp
  also have "\<dots> = nested (take (Suc k) others) next"
    using k by (simp add: take_Suc_conv_app_nth nested_snoc)
  finally show ?case .
qed

lemma Chain_loop_nested:
  "Chain_loop others (int (length others) - 1) next = nested others next"
  using Chain_loop_take [of "length others" others "next"] by simp

text \<open>
  C3.  For every middleware list \<open>outer # others\<close> and every endpoint \<open>h\<close>, the endpoint
  composed by \<open>Chain\<close> (and by the method \<open>Endpoint.Chain\<close>) is the nested application
  \<open>M0(M1(...Mn(h)))\<close>: the first-declared middleware is outermost.  The loop over no
  middlewares at all leaves the endpoint as it is (the identity composition).
\<close>

theorem Chain_is_nested_application:
  "Chain outer others h = nested (outer # others) h
   \<and> Endpoint_Chain h outer others = nested (outer # others) h
   \<and> Chain_loop [] (int (length ([] :: 'e Middleware list)) - 1) h = (h :: 'e)"
proof -
  have "Chain_loop [] (int (length ([] :: 'e Middleware list)) - 1) h = h"
    by (subst Chain_loop.simps) simp
  then show ?thesis
    by (simp add: Chain_def Endpoint_Chain_def Chain_loop_nested)
qed


text \<open>
  The order on invocation, on endpoints that extend a trace: the first-declared middleware
  acts first on the way in and last on the way out.
\<close>

lemma Chain_invocation_order:
  "Chain (\<lambda>ep tr. ep (tr @ [''A before'']) @ [''A after''])
         [\<lambda>ep tr. ep (tr @ [''B before'']) @ [''B after'']]
         (\<lambda>tr. tr @ [''H'']) []
     = [''A before'', ''B before'', ''H'', ''B after'', ''A after'']"
  by (simp add: Chain_def Chain_loop.simps)

text \<open>
  C1 (the code departs from it).  With a single key the argument of \<open>Intn\<close> is
  \<open>len(keys) - 1 = 0\<close>: \<open>CreateToken\<close> panics, whatever the random draw, and selects no index
  and stamps no \<open>kid\<close>.  The list of the package's own \<open>DefaultKeys\<close> is such a list.
\<close>

theorem CreateToken_single_key_panics:
  "CreateToken SignedString rnd claimFactory [key] = Inl IntnInvalidArgument
   \<and> CreateToken SignedString rnd claimFactory DefaultKeys = Inl IntnInvalidArgument"
  by (simp add: CreateToken_def Intn_def DefaultKeys_def)

text \<open>
  With two keys or more the call returns, and the index it stamps and signs with lies in
  \<open>[0, N - 2]\<close>: the last key is never selected, and the fallback \<open>n = 1\<close> is never taken.
\<close>

lemma Intn_range:
  "Intn rnd n = Inr k \<Longrightarrow> 0 \<le> k \<and> k < n"
  by (auto simp add: Intn_def split: if_splits)

lemma CreateToken_never_last_key:
  assumes "length keys \<ge> 2"
  shows "\<exists>n. 0 \<le> n \<and> n \<le> int (length keys) - 2
           \<and> CreateToken SignedString rnd claimFactory keys =
               Inr (SignedString
                      ((NewWithClaims jwtSigningMethod (claimFactory ()))
                         \<lparr>Header := (Header (NewWithClaims jwtSigningMethod (claimFactory ())))
                                      (''kid'' \<mapsto> JString (Itoa n))\<rparr>)
                      (keys ! nat n))"
proof -
  let ?n = "int rnd mod (int (length keys) - 1)"
  have pos: "int (length keys) - 1 > 0" using assms by simp
  have r: "0 \<le> ?n" "?n < int (length keys) - 1"
    using pos by simp_all
  have "CreateToken SignedString rnd claimFactory keys =
               Inr (SignedString
                      ((NewWithClaims jwtSigningMethod (claimFactory ()))
                         \<lparr>Header := (Header (NewWithClaims jwtSigningMethod (claimFactory ())))
                                      (''kid'' \<mapsto> JString (Itoa ?n))\<rparr>)
                      (keys ! nat ?n))"
    using pos r by (simp add: CreateToken_def Intn_def index_def Let_def)
  with r show ?thesis by (intro exI [of _ ?n]) simp
qed

text \<open>
  The error of a token whose signing method is not the configured one: the key function
  returns \<open>ErrUnexpectedSigningMethod\<close>, the library wraps it in an
  \<open>UnverfiableTokenError\<close>, and the type switch of the middleware has no case for that.
\<close>

lemma unexpected_method_is_generic:
  assumes "Value ctx ContextKeyJWTToken = Some (AString tokenString)"
    and "\<And>claims. \<exists>token. ParseUnverified lib tokenString claims = Inr token
                          \<and> Method token \<noteq> jwtSigningMethod"
  shows "WithJWTAuthEPMiddleware lib zero ep keyFn options ctx request w
           = Inr ((zero, Some (Errorf ''not authorized to access this resource'')), w)"
proof -
  define opt where "opt = apply_options
     \<lparr> ClaimFactory = None, JwtSigningMethod = None, ParserOptions = [] \<rparr> options"
  define claims where
    "claims = (case ClaimFactory opt of None \<Rightarrow> StandardClaimsFactory | Some f \<Rightarrow> f) ()"
  obtain token where t: "ParseUnverified lib tokenString claims = Inr token"
    "Method token \<noteq> jwtSigningMethod"
    using assms(2) by blast
  have "ParseWithClaims lib tokenString claims
          (\<lambda>token. if Method token \<noteq> jwtSigningMethod
                    then Inr (Inl ErrUnexpectedSigningMethod) else keyFn token)
          (ParserOptions opt)
        = Inr (Inl (UnverfiableTokenError ErrUnexpectedSigningMethod))"
    using t by (simp add: ParseWithClaims_def)
  then show ?thesis
    using assms(1) by (simp add: WithJWTAuthEPMiddleware_def opt_def claims_def)
qed

text \<open>
  The middleware returns \<open>ErrUnexpectedSigningMethod\<close> only if the wrapped endpoint does.
\<close>

lemma never_unexpected_signing_method:
  assumes "WithJWTAuthEPMiddleware lib zero ep keyFn options ctx request w
             = Inr ((out, Some ErrUnexpectedSigningMethod), w')"
  shows "\<exists>ctx'. ep ctx' request w = Inr ((out, Some ErrUnexpectedSigningMethod), w')"
  using assms
  by (auto simp add: WithJWTAuthEPMiddleware_def Let_def
      split: option.splits any.splits sum.splits jwt_error.splits if_splits)

text \<open>
  C2 (the code departs from it).  A token string that decodes to a token signed with RS256
  is rejected with the generic "not authorized to access this resource", not with
  \<open>ErrUnexpectedSigningMethod\<close>, by both versions of the middleware.
\<close>

theorem unexpected_signing_method_collapses:
  "WithJWTAuthEPMiddleware
     \<lparr>ParseUnverified =
        (\<lambda>s c. Inr \<lparr>Method = SigningMethodRS256,
                     Header = [''alg'' \<mapsto> JString ''RS256'', ''kid'' \<mapsto> JString ''0''],
                     Claims = c, Valid = False\<rparr>),
      Verify = (\<lambda>t k. True), ClaimsValid = (\<lambda>c opts. None)\<rparr>
     zero ep DefaultJwtKeyGetterFunc []
     [(ContextKeyJWTToken, AString ''header.payload.signature'')] request w
   = Inr ((zero, Some (Errorf ''not authorized to access this resource'')), w)
   \<and> WithJWTAuthEPMiddleware0
     \<lparr>ParseUnverified =
        (\<lambda>s c. Inr \<lparr>Method = SigningMethodRS256,
                     Header = [''alg'' \<mapsto> JString ''RS256'', ''kid'' \<mapsto> JString ''0''],
                     Claims = c, Valid = False\<rparr>),
      Verify = (\<lambda>t k. True), ClaimsValid = (\<lambda>c opts. None)\<rparr>
     zero ep []
     [(ContextKeyJWTToken, AString ''header.payload.signature'')] request w
   = Inr ((zero, Some (Errorf ''not authorized to access this resource'')), w)"
  by (simp add: WithJWTAuthEPMiddleware_def WithJWTAuthEPMiddleware0_def ParseWithClaims_def
      apply_options_def Value_def jwtSigningMethod_def)

text \<open>
  C4 (the code departs from it).  A \<open>kid\<close> of \<open>-1\<close> parses as an integer and passes the one
  bounds check \<open>n > len(keys) - 1\<close>; the index expression \<open>keys[n]\<close> then panics.  No
  validation error is returned.
\<close>

theorem getKey_negative_kid_panics:
  "getKey \<lparr>Method = SigningMethodHS256, Header = [''kid'' \<mapsto> JString ''-1''],
            Claims = claims, Valid = False\<rparr> keys
     = Inl (IndexOutOfRange (- 1) (length keys))"
  by (simp add: getKey_def Atoi_def is_digit_def index_def)

text \<open>
  What \<open>getKey\<close> does with a string \<open>kid\<close>, case by case: an error for one that is no
  number, an error for an index past the end, the key for an index within the list, and the
  panic for a negative index.
\<close>

lemma getKey_checked:
  assumes "Header token ''kid'' = Some (JString kid)"
  shows "(\<forall>e. Atoi kid = Inl e \<longrightarrow> getKey token keys = Inr (Inl (Wrapf ''failed to parse the kid ID. '' e [])))"
    and "(\<forall>n. Atoi kid = Inr n \<longrightarrow> n > int (length keys) - 1 \<longrightarrow> getKey token keys = Inr (Inl (Errorf ''kid index is out of range'')))"
    and "(\<forall>n. Atoi kid = Inr n \<longrightarrow> 0 \<le> n \<longrightarrow> n < int (length keys) \<longrightarrow> getKey token keys = Inr (Inr (keys ! nat n)))"
    and "(\<forall>n. Atoi kid = Inr n \<longrightarrow> n < 0 \<longrightarrow> getKey token keys = Inl (IndexOutOfRange n (length keys)))"
  using assms by (auto simp add: getKey_def index_def)

text \<open>
  C5.  For every context that carries no token string under \<open>ContextKeyJWTToken\<close> (no entry,
  or an entry that is not a string), the JWT middleware returns the zero output value with
  \<open>ErrTokenContextMissing\<close>, an error other than \<open>ErrTokenInvalid\<close>; the result does not
  depend on the wrapped endpoint, and the world is as before: the endpoint was not invoked.
  Both versions of the middleware do so.
\<close>

theorem missing_token_context:
  assumes "\<forall>s. Value ctx ContextKeyJWTToken \<noteq> Some (AString s)"
  shows "WithJWTAuthEPMiddleware lib zero ep keyFn options ctx request w
           = Inr ((zero, Some ErrTokenContextMissing), w)
         \<and> WithJWTAuthEPMiddleware0 lib zero ep options0 ctx request w
           = Inr ((zero, Some ErrTokenContextMissing), w)
         \<and> ErrTokenContextMissing \<noteq> ErrTokenInvalid"
  using assms
  by (auto simp add: WithJWTAuthEPMiddleware_def WithJWTAuthEPMiddleware0_def Let_def
      split: option.splits any.splits)

text \<open>
  The witness: an endpoint that counts its invocations, under an empty context and under a
  context whose entry for the key is not a string; the count stays 0.
\<close>

theorem missing_token_context_witness:
  "(\<forall>s. Value [] ContextKeyJWTToken \<noteq> Some (AString s))
   \<and> WithJWTAuthEPMiddleware
       \<lparr>ParseUnverified = (\<lambda>s c. Inl MalformedTokenError), Verify = (\<lambda>t k. False),
          ClaimsValid = (\<lambda>c opts. None)\<rparr>
       (0 :: nat) (\<lambda>ctx request count. Inr ((1, None), Suc count))
       DefaultJwtKeyGetterFunc [] [] () (0 :: nat)
     = Inr ((0, Some ErrTokenContextMissing), 0)
   \<and> WithJWTAuthEPMiddleware0
       \<lparr>ParseUnverified = (\<lambda>s c. Inl MalformedTokenError), Verify = (\<lambda>t k. False),
          ClaimsValid = (\<lambda>c opts. None)\<rparr>
       (0 :: nat) (\<lambda>ctx request count. Inr ((1, None), Suc count))
       [] [(ContextKeyJWTToken, AClaims (MapClaims []))] () (0 :: nat)
     = Inr ((0, Some ErrTokenContextMissing), 0)"
proof -
  let ?lib = "\<lparr>ParseUnverified = (\<lambda>s c. Inl MalformedTokenError), Verify = (\<lambda>t k. False),
          ClaimsValid = (\<lambda>c opts. None)\<rparr>"
  let ?ep = "(\<lambda>ctx request count. Inr ((1, None), Suc count))
               :: (unit, nat, nat) Endpoint"
  have h1: "\<forall>s. Value [] ContextKeyJWTToken \<noteq> Some (AString s)"
    by (simp add: Value_def)
  have h2: "\<forall>s. Value [(ContextKeyJWTToken, AClaims (MapClaims []))] ContextKeyJWTToken
                   \<noteq> Some (AString s)"
    by (simp add: Value_def)
  note a = missing_token_context [OF h1, where lib = ?lib and zero = "0 :: nat" and ep = ?ep
      and keyFn = DefaultJwtKeyGetterFunc and options = "[]" and request = "()" and w = "0 :: nat"
      and ?options0.0 = "[]"]
  note b = missing_token_context [OF h2, where lib = ?lib and zero = "0 :: nat" and ep = ?ep
      and keyFn = DefaultJwtKeyGetterFunc and options = "[]" and request = "()" and w = "0 :: nat"
      and ?options0.0 = "[]"]
  show ?thesis
    using h1 a b by simp
qed



text \<open>
  The code's test \<open>strings.ToUpper(x) == "BEARER "\<close> is the case-insensitive equality of
  the specification's wording.
\<close>

lemma upper_B: "ToUpper_char c = CHR ''B'' \<longleftrightarrow> ToLower_char c = CHR ''b''"
  by (simp add: ToUpper_char_def ToLower_char_def)
lemma upper_E: "ToUpper_char c = CHR ''E'' \<longleftrightarrow> ToLower_char c = CHR ''e''"
  by (simp add: ToUpper_char_def ToLower_char_def)
lemma upper_A: "ToUpper_char c = CHR ''A'' \<longleftrightarrow> ToLower_char c = CHR ''a''"
  by (simp add: ToUpper_char_def ToLower_char_def)
lemma upper_R: "ToUpper_char c = CHR ''R'' \<longleftrightarrow> ToLower_char c = CHR ''r''"
  by (simp add: ToUpper_char_def ToLower_char_def)
lemma upper_space: "ToUpper_char c = CHR '' '' \<longleftrightarrow> ToLower_char c = CHR '' ''"
  by (simp add: ToUpper_char_def ToLower_char_def)

lemma ToUpper_BEARER:
  "ToUpper s = ''BEARER '' \<longleftrightarrow> case_insensitive_equal s ''BEARER ''"
proof -
  have low: "map ToLower_char ''BEARER '' = ''bearer ''"
    by (simp add: ToLower_char_def)
  show ?thesis
    unfolding ToUpper_def case_insensitive_equal_def low
    by (simp add: map_eq_Cons_conv upper_B upper_E upper_A upper_R upper_space)
qed

text \<open>
  C10.  \<open>TokenFromHeader\<close> returns the header after its first seven characters exactly when
  the header is longer than seven characters and the first seven are, ignoring case,
  \<open>BEARER\<close> and a space; the result is then not empty.  In every other case it returns the
  empty string, and on the empty string \<open>MakeHttpJwtMiddleware\<close> answers 401 "Not Authorized"
  without parsing anything and without calling the next handler.
\<close>

theorem TokenFromHeader_bearer:
  "TokenFromHeader r =
     (if length (Header_Get (ReqHeader r) ''Authorization'') > 7
         \<and> case_insensitive_equal (take 7 (Header_Get (ReqHeader r) ''Authorization'')) ''BEARER ''
      then drop 7 (Header_Get (ReqHeader r) ''Authorization'') else [])
   \<and> (TokenFromHeader r \<noteq> [] \<longleftrightarrow>
        length (Header_Get (ReqHeader r) ''Authorization'') > 7
        \<and> case_insensitive_equal (take 7 (Header_Get (ReqHeader r) ''Authorization'')) ''BEARER '')
   \<and> (TokenFromHeader r = [] \<longrightarrow>
        MakeHttpJwtMiddleware lib keyFn options nxt w r
          = Inr (http_Error w ''Not Authorized'' StatusUnauthorized))"
  by (simp add: TokenFromHeader_def MakeHttpJwtMiddleware_def Let_def ToUpper_BEARER)

text \<open>
  The witness: a lower-case scheme with a token, the scheme with an empty token, another
  scheme, no header at all, and the answer of the middleware to the last.
\<close>

theorem TokenFromHeader_bearer_witness:
  "TokenFromHeader \<lparr>ReqHeader = (\<lambda>k. if k = ''Authorization'' then [''bearer abc.def.ghi''] else []),
                    ReqContext = []\<rparr> = ''abc.def.ghi''
   \<and> TokenFromHeader \<lparr>ReqHeader = (\<lambda>k. if k = ''Authorization'' then [''Bearer ''] else []),
                    ReqContext = []\<rparr> = []
   \<and> TokenFromHeader \<lparr>ReqHeader = (\<lambda>k. if k = ''Authorization'' then [''Basic dXNlcjpwdw==''] else []),
                    ReqContext = []\<rparr> = []
   \<and> TokenFromHeader \<lparr>ReqHeader = (\<lambda>k. []), ReqContext = []\<rparr> = []
   \<and> MakeHttpJwtMiddleware
        \<lparr>ParseUnverified = (\<lambda>s c. Inl MalformedTokenError), Verify = (\<lambda>t k. False),
          ClaimsValid = (\<lambda>c opts. None)\<rparr>
        DefaultJwtKeyGetterFunc []
        (\<lambda>w r. Inr (w\<lparr>StatusCode := 200\<rparr>))
        \<lparr>StatusCode = 0, Body = []\<rparr>
        \<lparr>ReqHeader = (\<lambda>k. []), ReqContext = []\<rparr>
      = Inr \<lparr>StatusCode = 401, Body = ''Not Authorized'' @ [CHR 0x0A]\<rparr>"
proof -
  let ?lib = "\<lparr>ParseUnverified = (\<lambda>s c. Inl MalformedTokenError), Verify = (\<lambda>t k. False),
          ClaimsValid = (\<lambda>c opts. None)\<rparr>"
  let ?next = "(\<lambda>w r. Inr (w\<lparr>StatusCode := 200\<rparr>)) :: Handler"
  let ?w = "\<lparr>StatusCode = 0, Body = []\<rparr>"
  let ?r1 = "\<lparr>ReqHeader = (\<lambda>k. if k = ''Authorization'' then [''bearer abc.def.ghi''] else []),
                    ReqContext = []\<rparr>"
  let ?r2 = "\<lparr>ReqHeader = (\<lambda>k. if k = ''Authorization'' then [''Bearer ''] else []),
                    ReqContext = []\<rparr>"
  let ?r3 = "\<lparr>ReqHeader = (\<lambda>k. if k = ''Authorization'' then [''Basic dXNlcjpwdw==''] else []),
                    ReqContext = []\<rparr>"
  let ?r4 = "\<lparr>ReqHeader = (\<lambda>k. []), ReqContext = []\<rparr>"
  have low: "map ToLower_char ''BEARER '' = ''bearer ''"
    by (simp add: ToLower_char_def)
  have a1: "TokenFromHeader ?r1 = ''abc.def.ghi''"
    using TokenFromHeader_bearer [where r = ?r1 and lib = ?lib and keyFn = DefaultJwtKeyGetterFunc
        and options = "[]" and nxt = ?next and w = ?w]
    by (simp add: Header_Get_def case_insensitive_equal_def low) (simp add: ToLower_char_def)
  have a2: "TokenFromHeader ?r2 = []"
    using TokenFromHeader_bearer [where r = ?r2 and lib = ?lib and keyFn = DefaultJwtKeyGetterFunc
        and options = "[]" and nxt = ?next and w = ?w]
    by (simp add: Header_Get_def)
  have a3: "TokenFromHeader ?r3 = []"
    using TokenFromHeader_bearer [where r = ?r3 and lib = ?lib and keyFn = DefaultJwtKeyGetterFunc
        and options = "[]" and nxt = ?next and w = ?w]
    by (simp add: Header_Get_def case_insensitive_equal_def low) (simp add: ToLower_char_def)
  have a4: "TokenFromHeader ?r4 = []"
    using TokenFromHeader_bearer [where r = ?r4 and lib = ?lib and keyFn = DefaultJwtKeyGetterFunc
        and options = "[]" and nxt = ?next and w = ?w]
    by (simp add: Header_Get_def)
  have a5: "MakeHttpJwtMiddleware ?lib DefaultJwtKeyGetterFunc [] ?next ?w ?r4
      = Inr \<lparr>StatusCode = 401, Body = ''Not Authorized'' @ [CHR 0x0A]\<rparr>"
    using a4 TokenFromHeader_bearer [where r = ?r4 and lib = ?lib and keyFn = DefaultJwtKeyGetterFunc
        and options = "[]" and nxt = ?next and w = ?w]
    by (simp add: http_Error_def StatusUnauthorized_def)
  show ?thesis using a1 a2 a3 a4 a5 by simp
qed

text \<open>
  An accepted API key: the handler is called with the request as it came.  The two
  contexts that the code derives are in copies of the request that it drops.
\<close>

lemma apikey_request_unchanged:
  assumes "ApikeyFromHeader r \<noteq> []" and "validateFn (ApikeyFromHeader r) = Some claims"
  shows "MakeHttpApikeyMiddleware validateFn nxt w r = nxt w r"
  using assms by (simp add: MakeHttpApikeyMiddleware_def Let_def)

lemma combined_request_unchanged:
  assumes "TokenFromHeader r = []" and "ApikeyFromHeader r \<noteq> []"
    and "validateFn (ApikeyFromHeader r) = Some claims"
  shows "MakeHttpJwtAndApikeyMiddleware lib keyFn validateFn options nxt w r = nxt w r"
  using assms by (simp add: MakeHttpJwtAndApikeyMiddleware_def Let_def)

text \<open>
  C9 (the code departs from it).  A request with a valid API key reaches the next handler
  with its context unchanged: the handler finds neither the claims under
  \<open>ContextKeyAuthClaims\<close> nor the key under \<open>ContextKeyApikey\<close>.  So it is in the API-key
  middleware and in the API-key branch of the combined one.
\<close>

theorem apikey_claims_not_in_context:
  "MakeHttpApikeyMiddleware (\<lambda>apikey. Some (AClaims (MapClaims [(''sub'', JString apikey)])))
     (\<lambda>w r. Inr (w\<lparr>StatusCode := 200,
                     Body := (case Value (ReqContext r) ContextKeyAuthClaims of
                                None \<Rightarrow> ''no claims'' | Some c \<Rightarrow> ''claims'')
                             @ (case Value (ReqContext r) ContextKeyApikey of
                                  None \<Rightarrow> '', no apikey'' | Some k \<Rightarrow> '', apikey'')\<rparr>))
     \<lparr>StatusCode = 0, Body = []\<rparr>
     \<lparr>ReqHeader = (\<lambda>k. if k = ''X-Api-Key'' then [''k-123''] else []), ReqContext = []\<rparr>
   = Inr \<lparr>StatusCode = 200, Body = ''no claims, no apikey''\<rparr>
   \<and> MakeHttpJwtAndApikeyMiddleware
     \<lparr>ParseUnverified = (\<lambda>s c. Inl MalformedTokenError), Verify = (\<lambda>t k. False),
       ClaimsValid = (\<lambda>c opts. None)\<rparr>
     DefaultJwtKeyGetterFunc
     (\<lambda>apikey. Some (AClaims (MapClaims [(''sub'', JString apikey)]))) []
     (\<lambda>w r. Inr (w\<lparr>StatusCode := 200,
                     Body := (case Value (ReqContext r) ContextKeyAuthClaims of
                                None \<Rightarrow> ''no claims'' | Some c \<Rightarrow> ''claims'')
                             @ (case Value (ReqContext r) ContextKeyApikey of
                                  None \<Rightarrow> '', no apikey'' | Some k \<Rightarrow> '', apikey'')\<rparr>))
     \<lparr>StatusCode = 0, Body = []\<rparr>
     \<lparr>ReqHeader = (\<lambda>k. if k = ''X-Api-Key'' then [''k-123''] else []), ReqContext = []\<rparr>
   = Inr \<lparr>StatusCode = 200, Body = ''no claims, no apikey''\<rparr>"
  by (simp add: MakeHttpApikeyMiddleware_def MakeHttpJwtAndApikeyMiddleware_def
      ApikeyFromHeader_def TokenFromHeader_def Header_Get_def Value_def)

text \<open>
  One call of \<open>io.CopyN\<close> with the cap plus one: a part within the cap is copied in full,
  a longer one up to one byte past the cap.
\<close>

lemma CopyN_within:
  "int (length (Data part)) < n \<Longrightarrow>
     CopyN part n = (Data part, int (length (Data part)),
                     Some (case ReadErr part of None \<Rightarrow> EOF | Some e \<Rightarrow> e))"
  by (simp add: CopyN_def)

lemma CopyN_beyond:
  "0 < n \<Longrightarrow> n \<le> int (length (Data part)) \<Longrightarrow> CopyN part n = (take (nat n) (Data part), n, None)"
  by (simp add: CopyN_def)







text \<open>
  The loop of the single-file decoder over parts without a file name: it runs through them
  and adds their contents to the form data, leaving the target alone.
\<close>

lemma single_file_loop_append:
  "list_all no_file xs \<Longrightarrow>
   single_file_loop ops (xs @ ys) reqObj formData =
     (case single_file_loop ops xs reqObj formData of
        Inl err \<Rightarrow> Inl err
      | Inr (reqObj', formData') \<Rightarrow> single_file_loop ops ys reqObj' formData')"
proof (induction xs arbitrary: reqObj formData)
  case Nil
  show ?case by simp
next
  case (Cons x xs)
  show ?case
  proof (cases x)
    case (NextPartError err)
    then show ?thesis by simp
  next
    case (NextPart part)
    obtain b n err where c1: "CopyN part (maxDataMemory + 1) = (b, n, err)"
      by (cases "CopyN part (maxDataMemory + 1)") auto
    from Cons.prems NextPart have "FileName part = []" "list_all no_file xs" by simp_all
    then show ?thesis
      using NextPart c1 by (simp add: Cons.IH split: option.splits)
  qed
qed

lemma single_file_loop_captures:
  "list_all no_file body \<Longrightarrow>
   single_file_loop ops body reqObj formData = Inr (reqObj', formData')
   \<Longrightarrow> reqObj' = reqObj \<and> (\<forall>name. formData' name = formData name @ form_values body name)"
proof (induction body arbitrary: reqObj formData)
  case Nil
  then show ?case by simp
next
  case (Cons x xs)
  show ?case
  proof (cases x)
    case (NextPartError err)
    with Cons.prems show ?thesis by simp
  next
    case (NextPart part)
    from Cons.prems NextPart have nf: "FileName part = []" "list_all no_file xs" by simp_all
    show ?thesis
    proof (cases "int (length (Data part)) > maxDataMemory")
      case True
      then have "CopyN part (maxDataMemory + 1)
                   = (take (nat (maxDataMemory + 1)) (Data part), maxDataMemory + 1, None)"
        by (intro CopyN_beyond) (simp_all add: maxDataMemory_def)
      with Cons.prems(2) NextPart nf show ?thesis by simp
    next
      case False
      then have c: "CopyN part (maxDataMemory + 1) = (Data part, int (length (Data part)),
                     Some (case ReadErr part of None \<Rightarrow> EOF | Some e \<Rightarrow> e))"
        by (intro CopyN_within) simp
      with Cons.prems(2) NextPart nf False
      have "single_file_loop ops xs reqObj
              (\<lambda>k. if k = FormName part then formData k @ [Data part] else formData k)
              = Inr (reqObj', formData')"
        by (simp split: option.splits if_splits)
      from Cons.IH [OF nf(2) this] NextPart nf show ?thesis by simp
    qed
  qed
qed

text \<open>
  C8 (as stated, refuted).  A body with the file part first and the field \<open>sheet\<close> after it:
  the decoder hands the file over and leaves the loop; the form data bound into the target
  have no value for \<open>sheet\<close>.
\<close>

theorem trailing_fields_dropped_counterexample:
  "CommonFileUploadStreamDecoder
     \<lparr>AddFileStream = (\<lambda>obj filename content ctype. obj @ [''file '' @ filename]),
      BindFormData1 = (\<lambda>obj values. Inr (obj @ values ''sheet'')),
      BindURLQuery1 = (\<lambda>obj values. Inr obj)\<rparr>
     [] []
     \<lparr>ReqHeader = (\<lambda>k. []), ReqContext = [],
      MultipartReader =
        Inr [NextPart \<lparr>FormName = ''doc'', FileName = ''doc.pdf'', ContentType = ''application/pdf'',
                       Data = ''%PDF'', ReadErr = None\<rparr>,
             NextPart \<lparr>FormName = ''sheet'', FileName = [], ContentType = [],
                       Data = ''Q1'', ReadErr = None\<rparr>],
      URLQuery = (\<lambda>k. [])\<rparr>
   = Inr [''file doc.pdf'']
   \<and> CommonFileUploadStreamDecoder
     \<lparr>AddFileStream = (\<lambda>obj filename content ctype. obj @ [''file '' @ filename]),
      BindFormData1 = (\<lambda>obj values. Inr (obj @ values ''sheet'')),
      BindURLQuery1 = (\<lambda>obj values. Inr obj)\<rparr>
     [] []
     \<lparr>ReqHeader = (\<lambda>k. []), ReqContext = [],
      MultipartReader =
        Inr [NextPart \<lparr>FormName = ''doc'', FileName = ''doc.pdf'', ContentType = ''application/pdf'',
                       Data = ''%PDF'', ReadErr = None\<rparr>,
             NextPart \<lparr>FormName = ''sheet'', FileName = [], ContentType = [],
                       Data = ''Q1'', ReadErr = None\<rparr>],
      URLQuery = (\<lambda>k. [])\<rparr>
   \<noteq> Inr [''file doc.pdf'', ''Q1'']"
  by (simp add: CommonFileUploadStreamDecoder_def add_params_def Value_def)

text \<open>
  C8 (amended).  In single-file mode the iteration stops at the first part with a file
  name: the parts after it are not read and have no effect on the result, and the form
  values bound into the target are those of the parts before it.
\<close>

theorem single_file_mode_stops_at_file:
  assumes "MultipartReader r = Inr (pre @ NextPart file # post)"
    and "FileName file \<noteq> []" and "list_all no_file pre"
  shows "CommonFileUploadStreamDecoder ops new ctx r
           = CommonFileUploadStreamDecoder ops new ctx
               (r\<lparr>MultipartReader := Inr (pre @ [NextPart file])\<rparr>)
         \<and> (\<forall>result. CommonFileUploadStreamDecoder ops new ctx r = Inr result \<longrightarrow>
              (\<exists>reqObj1.
                 BindFormData1 ops
                     (AddFileStream ops new (FileName file) (Data file) (ContentType file))
                     (form_values pre) = Inr reqObj1
               \<and> BindURLQuery1 ops reqObj1
                     (add_params (URLQuery r) (Value ctx ContextKeyURLParams)) = Inr result))"
proof -
  have stop: "single_file_loop ops (pre @ NextPart file # rest) new (\<lambda>k. []) =
          (case single_file_loop ops pre new (\<lambda>k. []) of
             Inl err \<Rightarrow> Inl err
           | Inr (reqObj', formData') \<Rightarrow>
               Inr (AddFileStream ops reqObj' (FileName file) (Data file) (ContentType file),
                    formData'))" for rest
    using assms(2) by (simp add: single_file_loop_append [OF assms(3)] split: sum.splits)
  have same: "single_file_loop ops (pre @ NextPart file # post) new (\<lambda>k. [])
                = single_file_loop ops (pre @ [NextPart file]) new (\<lambda>k. [])"
    by (simp only: stop)
  have first: "CommonFileUploadStreamDecoder ops new ctx r
           = CommonFileUploadStreamDecoder ops new ctx
               (r\<lparr>MultipartReader := Inr (pre @ [NextPart file])\<rparr>)"
    using assms(1)
    by (simp add: CommonFileUploadStreamDecoder_def same split: sum.splits prod.splits)
  have second: "\<exists>reqObj1.
                 BindFormData1 ops
                     (AddFileStream ops new (FileName file) (Data file) (ContentType file))
                     (form_values pre) = Inr reqObj1
               \<and> BindURLQuery1 ops reqObj1
                     (add_params (URLQuery r) (Value ctx ContextKeyURLParams)) = Inr result"
    if ok: "CommonFileUploadStreamDecoder ops new ctx r = Inr result" for result
  proof -
    from ok assms(1) obtain reqObj formData where
      l: "single_file_loop ops (pre @ NextPart file # post) new (\<lambda>k. []) = Inr (reqObj, formData)"
      by (auto simp add: CommonFileUploadStreamDecoder_def split: sum.splits)
    then obtain reqObj' where
      p: "single_file_loop ops pre new (\<lambda>k. []) = Inr (reqObj', formData)"
      and o: "reqObj = AddFileStream ops reqObj' (FileName file) (Data file) (ContentType file)"
      by (auto simp add: stop split: sum.splits)
    from single_file_loop_captures [OF assms(3) p]
    have "reqObj' = new" and "formData = form_values pre" by auto
    with ok l o assms(1) show ?thesis
      by (auto simp add: CommonFileUploadStreamDecoder_def split: sum.splits)
  qed
  from first second show ?thesis by blast
qed

text \<open>
  The witness: a field, the file, a field.  The first field is bound, the last one is not.
\<close>

theorem single_file_mode_stops_at_file_witness:
  "FileName \<lparr>FormName = ''doc'', FileName = ''doc.pdf'', ContentType = ''application/pdf'',
              Data = ''%PDF'', ReadErr = None\<rparr> \<noteq> []
   \<and> list_all no_file [NextPart \<lparr>FormName = ''sheet'', FileName = [], ContentType = [],
                                   Data = ''Q1'', ReadErr = None\<rparr>]
   \<and> CommonFileUploadStreamDecoder
       \<lparr>AddFileStream = (\<lambda>obj filename content ctype. obj @ [''file '' @ filename]),
        BindFormData1 = (\<lambda>obj values. Inr (obj @ values ''sheet'' @ values ''note'')),
        BindURLQuery1 = (\<lambda>obj values. Inr obj)\<rparr>
       [] []
       \<lparr>ReqHeader = (\<lambda>k. []), ReqContext = [],
        MultipartReader =
          Inr ([NextPart \<lparr>FormName = ''sheet'', FileName = [], ContentType = [],
                          Data = ''Q1'', ReadErr = None\<rparr>]
               @ NextPart \<lparr>FormName = ''doc'', FileName = ''doc.pdf'',
                           ContentType = ''application/pdf'', Data = ''%PDF'', ReadErr = None\<rparr>
               # [NextPart \<lparr>FormName = ''note'', FileName = [], ContentType = [],
                            Data = ''late'', ReadErr = None\<rparr>]),
        URLQuery = (\<lambda>k. [])\<rparr>
     = Inr [''file doc.pdf'', ''Q1'']"
proof -
  let ?sheet = "\<lparr>FormName = ''sheet'', FileName = [], ContentType = [],
                  Data = ''Q1'', ReadErr = None\<rparr>"
  let ?doc = "\<lparr>FormName = ''doc'', FileName = ''doc.pdf'', ContentType = ''application/pdf'',
                Data = ''%PDF'', ReadErr = None\<rparr>"
  let ?note = "\<lparr>FormName = ''note'', FileName = [], ContentType = [],
                 Data = ''late'', ReadErr = None\<rparr>"
  let ?ops = "\<lparr>AddFileStream = (\<lambda>obj filename content ctype. obj @ [''file '' @ filename]),
        BindFormData1 = (\<lambda>obj values. Inr (obj @ values ''sheet'' @ values ''note'')),
        BindURLQuery1 = (\<lambda>obj values. Inr obj)\<rparr> :: string list stream_target"
  let ?r = "\<lparr>ReqHeader = (\<lambda>k. []), ReqContext = [],
        MultipartReader = Inr ([NextPart ?sheet] @ NextPart ?doc # [NextPart ?note]),
        URLQuery = (\<lambda>k. [])\<rparr>"
  have h1: "MultipartReader ?r = Inr ([NextPart ?sheet] @ NextPart ?doc # [NextPart ?note])"
    by simp
  have h2: "FileName ?doc \<noteq> []" by simp
  have h3: "list_all no_file [NextPart ?sheet]" by simp
  note at_input = single_file_mode_stops_at_file [OF h1 h2 h3, where ops = ?ops and new = "[]"
      and ctx = "[]"]
  have "CommonFileUploadStreamDecoder ?ops [] []
          (?r\<lparr>MultipartReader := Inr ([NextPart ?sheet] @ [NextPart ?doc])\<rparr>)
        = Inr [''file doc.pdf'', ''Q1'']"
    by (simp add: CommonFileUploadStreamDecoder_def add_params_def Value_def CopyN_def
        maxDataMemory_def)
  with at_input [THEN conjunct1] have "CommonFileUploadStreamDecoder ?ops [] [] ?r
        = Inr [''file doc.pdf'', ''Q1'']"
    by simp
  with h2 h3 show ?thesis by simp
qed

end
